theory Spec2Isabelle
  imports Complex_Main
begin

section \<open>Data model\<close>

text \<open>
  An expense is the dictionary built in \<open>add_expense\<close> (app.py, lines 29-36), with its six
  fixed keys. The key \<open>'id'\<close> is the field \<open>id_field\<close>, since \<open>id\<close> is the identity
  function of HOL. Amounts are the numbers the command loop reads with \<open>float\<close>; they are
  modelled as exact real numbers, so the rounding of floating-point addition is not part of
  the model. Strings are lists of 8-bit characters.
\<close>

record expense =
  id_field :: int
  description :: string
  amount :: real
  category :: string
  date :: string
  created_at :: string

text \<open>
  The only statement of the manager that can raise on a well-typed store is the \<open>open\<close> of
  \<open>save_expenses\<close> (an \<open>OSError\<close>, for instance on a read-only file).
\<close>

datatype error = OSError

text \<open>
  Every \<open>print\<close> of the manager is one constructor: the constructor stands for the fixed
  text of the format string, and its arguments are the interpolated values.
\<close>

datatype message =
    NoExpensesFile \<comment> \<open>line 19\<close>
  | ExpenseAdded string real string string \<comment> \<open>line 39\<close>
  | FailedAdd error \<comment> \<open>line 41\<close>
  | NoExpensesFound \<comment> \<open>line 46\<close>
  | ExpenseDetails int string real string string string \<comment> \<open>lines 49-54\<close>
  | ExpenseUpdated int \<comment> \<open>line 70\<close>
  | ExpenseNotFound int \<comment> \<open>line 72\<close>
  | FailedEdit error \<comment> \<open>line 74\<close>
  | ExpenseDeleted int \<comment> \<open>line 81\<close>
  | FailedDelete error \<comment> \<open>line 83\<close>
  | NoMonthlyExpenses string \<comment> \<open>line 91\<close>
  | MonthlyReportHeader string real \<comment> \<open>line 94\<close>
  | ReportLine string real string \<comment> \<open>lines 96 and 110\<close>
  | FailedMonthlyReport error \<comment> \<open>line 98\<close>
  | NoCategoryExpenses string \<comment> \<open>line 105\<close>
  | CategoryReportHeader string real \<comment> \<open>line 108\<close>
  | FailedCategoryReport error \<comment> \<open>line 112\<close>

text \<open>
  The state the manager works on: its attribute \<open>self.expenses\<close>, the file
  \<open>expenses.json\<close> (\<open>None\<close> when the file does not exist, otherwise the JSON document it
  holds, which is a list of expenses), whether that file can be opened for writing, and
  what has been printed so far.
\<close>

record world =
  expenses :: "expense list"
  expenses_file :: "expense list option"
  writable :: bool
  stdout :: "message list"

definition print :: "message \<Rightarrow> world \<Rightarrow> world" where
  "print m w = w\<lparr>stdout := stdout w @ [m]\<rparr>"

section \<open>Strings and numbers of Python\<close>

definition digit :: "nat \<Rightarrow> char" where
  "digit n = ''0123456789'' ! (n mod 10)"

text \<open>\<open>str\<close> of a non-negative integer: its decimal digits.\<close>

function str_nat :: "nat \<Rightarrow> string" where
  "str_nat n = (if n < 10 then [digit n] else str_nat (n div 10) @ [digit (n mod 10)])"
  by pat_completeness auto
termination
  by (relation "measure (\<lambda>n. n)") auto

declare str_nat.simps [simp del]

text \<open>The replacement field \<open>{year}\<close> of an f-string: \<open>str\<close> of an integer.\<close>

definition str_int :: "int \<Rightarrow> string" where
  "str_int i = (if i < 0 then CHR ''-'' # str_nat (nat (- i)) else str_nat (nat i))"

text \<open>
  The replacement field \<open>{month:02d}\<close>: sign-aware zero padding to a width of two, so a
  negative number, whose sign and first digit already fill the width, gets no padding.
\<close>

definition format_02d :: "int \<Rightarrow> string" where
  "format_02d i =
     (if i < 0 then CHR ''-'' # str_nat (nat (- i))
      else replicate (2 - length (str_nat (nat i))) CHR ''0'' @ str_nat (nat i))"

text \<open>\<open>str.startswith\<close>: the second string is a prefix of the first.\<close>

fun startswith :: "string \<Rightarrow> string \<Rightarrow> bool" where
  "startswith s [] = True"
| "startswith [] (p # ps) = False"
| "startswith (c # cs) (p # ps) = (c = p \<and> startswith cs ps)"

text \<open>
  \<open>str.lower\<close> on the 8-bit characters of the model: the capital letters \<open>A\<close> to \<open>Z\<close> are
  mapped to the small ones, every other character stays.
\<close>

definition lower_char :: "char \<Rightarrow> char" where
  "lower_char c =
     (if 65 \<le> (of_char c :: nat) \<and> (of_char c :: nat) \<le> 90
      then char_of ((of_char c :: nat) + 32) else c)"

definition lower :: "string \<Rightarrow> string" where
  "lower s = map lower_char s"

text \<open>The builtin \<open>sum\<close>: the amounts are added from the left, starting at \<open>0\<close>.\<close>

definition py_sum :: "real list \<Rightarrow> real" where
  "py_sum xs = foldl (\<lambda>acc x. acc + x) 0 xs"

section \<open>The expense manager\<close>

text \<open>
  \<open>load_expenses\<close> (lines 13-19). A file that exists holds a well-formed document, so
  \<open>json.load\<close> returns the list it denotes.
\<close>

definition load_expenses :: "world \<Rightarrow> world" where
  "load_expenses w =
     (case expenses_file w of
        Some xs \<Rightarrow> w\<lparr>expenses := xs\<rparr>
      | None \<Rightarrow> print NoExpensesFile w)"

text \<open>The constructor \<open>__init__\<close> (lines 8-11).\<close>

definition init_manager :: "world \<Rightarrow> world" where
  "init_manager w = load_expenses (w\<lparr>expenses := []\<rparr>)"

text \<open>
  \<open>save_expenses\<close> (lines 21-24): the file is opened for writing, which truncates it, and
  the whole list is written. An \<open>open\<close> that fails raises and leaves the file as it was.
\<close>

definition save_expenses :: "world \<Rightarrow> error + world" where
  "save_expenses w =
     (if writable w then Inr (w\<lparr>expenses_file := Some (expenses w)\<rparr>) else Inl OSError)"

text \<open>
  \<open>add_expense\<close> (lines 26-41). The last argument is the text \<open>datetime.now()\<close> is formatted
  to. The new expense is appended before the file is written, so it stays in the list when
  the write raises.
\<close>

definition add_expense :: "world \<Rightarrow> string \<Rightarrow> real \<Rightarrow> string \<Rightarrow> string \<Rightarrow> string \<Rightarrow> world" where
  "add_expense w desc amt cat dt now =
     (let new = \<lparr>id_field = int (length (expenses w)) + 1, description = desc, amount = amt,
                 category = cat, date = dt, created_at = now\<rparr>;
          w1 = w\<lparr>expenses := expenses w @ [new]\<rparr>
      in case save_expenses w1 of
           Inr w2 \<Rightarrow> print (ExpenseAdded desc amt cat dt) w2
         | Inl e \<Rightarrow> print (FailedAdd e) w1)"

text \<open>\<open>list_expenses\<close> (lines 43-54).\<close>

definition list_expenses :: "world \<Rightarrow> world" where
  "list_expenses w =
     (if expenses w = [] then print NoExpensesFound w
      else w\<lparr>stdout := stdout w @
             map (\<lambda>e. ExpenseDetails (id_field e) (description e) (amount e) (category e)
                        (date e) (created_at e)) (expenses w)\<rparr>)"

text \<open>
  The four guarded assignments of \<open>edit_expense\<close> (lines 61-68). Each guard is the truth
  value of the argument: \<open>None\<close> and the empty string are false, and so is the number zero.
\<close>

definition set_description :: "string option \<Rightarrow> expense \<Rightarrow> expense" where
  "set_description a e = (case a of Some s \<Rightarrow> if s \<noteq> [] then e\<lparr>description := s\<rparr> else e | None \<Rightarrow> e)"

definition set_amount :: "real option \<Rightarrow> expense \<Rightarrow> expense" where
  "set_amount a e = (case a of Some x \<Rightarrow> if x \<noteq> 0 then e\<lparr>amount := x\<rparr> else e | None \<Rightarrow> e)"

definition set_category :: "string option \<Rightarrow> expense \<Rightarrow> expense" where
  "set_category a e = (case a of Some s \<Rightarrow> if s \<noteq> [] then e\<lparr>category := s\<rparr> else e | None \<Rightarrow> e)"

definition set_date :: "string option \<Rightarrow> expense \<Rightarrow> expense" where
  "set_date a e = (case a of Some s \<Rightarrow> if s \<noteq> [] then e\<lparr>date := s\<rparr> else e | None \<Rightarrow> e)"

definition update_fields ::
  "string option \<Rightarrow> real option \<Rightarrow> string option \<Rightarrow> string option \<Rightarrow> expense \<Rightarrow> expense" where
  "update_fields desc amt cat dt e =
     set_date dt (set_category cat (set_amount amt (set_description desc e)))"

text \<open>
  The loop of \<open>edit_expense\<close> (lines 59-71): the first expense with the id is updated in
  place and the loop is left; \<open>None\<close> when the loop ends without a match.
\<close>

fun edit_loop ::
  "expense list \<Rightarrow> int \<Rightarrow> string option \<Rightarrow> real option \<Rightarrow> string option \<Rightarrow> string option
     \<Rightarrow> expense list option" where
  "edit_loop [] i desc amt cat dt = None"
| "edit_loop (e # es) i desc amt cat dt =
     (if id_field e = i then Some (update_fields desc amt cat dt e # es)
      else map_option (\<lambda>ys. e # ys) (edit_loop es i desc amt cat dt))"

text \<open>\<open>edit_expense\<close> (lines 56-74).\<close>

definition edit_expense ::
  "world \<Rightarrow> int \<Rightarrow> string option \<Rightarrow> real option \<Rightarrow> string option \<Rightarrow> string option \<Rightarrow> world" where
  "edit_expense w i desc amt cat dt =
     (case edit_loop (expenses w) i desc amt cat dt of
        Some xs \<Rightarrow>
          (let w1 = w\<lparr>expenses := xs\<rparr>
           in case save_expenses w1 of
                Inr w2 \<Rightarrow> print (ExpenseUpdated i) w2
              | Inl e \<Rightarrow> print (FailedEdit e) w1)
      | None \<Rightarrow> print (ExpenseNotFound i) w)"

text \<open>\<open>delete_expense\<close> (lines 76-83).\<close>

definition delete_expense :: "world \<Rightarrow> int \<Rightarrow> world" where
  "delete_expense w i =
     (let w1 = w\<lparr>expenses := filter (\<lambda>e. id_field e \<noteq> i) (expenses w)\<rparr>
      in case save_expenses w1 of
           Inr w2 \<Rightarrow> print (ExpenseDeleted i) w2
         | Inl e \<Rightarrow> print (FailedDelete e) w1)"

text \<open>
  The lines both reports print for the expenses they selected (lines 95-96 and 109-110).
\<close>

definition report_lines :: "expense list \<Rightarrow> message list" where
  "report_lines xs = map (\<lambda>e. ReportLine (description e) (amount e) (date e)) xs"

text \<open>
  \<open>monthly_report\<close> (lines 85-98). The first definition is the local \<open>month_str\<close>, the
  second the list comprehension of line 89. With an integer month and year and string dates
  nothing in the body raises, so the handler of line 97 is not entered; the same holds for
  \<open>category_report\<close>.
\<close>

definition month_str :: "int \<Rightarrow> int \<Rightarrow> string" where
  "month_str year month = str_int year @ ''-'' @ format_02d month"

definition monthly_expenses :: "world \<Rightarrow> int \<Rightarrow> int \<Rightarrow> expense list" where
  "monthly_expenses w month year =
     filter (\<lambda>e. startswith (date e) (month_str year month)) (expenses w)"

definition monthly_report :: "world \<Rightarrow> int \<Rightarrow> int \<Rightarrow> world" where
  "monthly_report w month year =
     (if monthly_expenses w month year = []
      then print (NoMonthlyExpenses (month_str year month)) w
      else w\<lparr>stdout := stdout w @
             MonthlyReportHeader (month_str year month)
               (py_sum (map amount (monthly_expenses w month year)))
             # report_lines (monthly_expenses w month year)\<rparr>)"

text \<open>\<open>category_report\<close> (lines 100-112).\<close>

definition category_expenses :: "world \<Rightarrow> string \<Rightarrow> expense list" where
  "category_expenses w cat =
     filter (\<lambda>e. lower (category e) = lower cat) (expenses w)"

definition category_report :: "world \<Rightarrow> string \<Rightarrow> world" where
  "category_report w cat =
     (if category_expenses w cat = []
      then print (NoCategoryExpenses cat) w
      else w\<lparr>stdout := stdout w @
             CategoryReportHeader cat (py_sum (map amount (category_expenses w cat)))
             # report_lines (category_expenses w cat)\<rparr>)"

section \<open>Runs and sample stores\<close>

text \<open>
  A run of \<open>add_expense\<close> calls, one per tuple of description, amount, category, date and
  creation time, in the order of the list.
\<close>

definition add_all :: "world \<Rightarrow> (string \<times> real \<times> string \<times> string \<times> string) list \<Rightarrow> world" where
  "add_all w args = foldl (\<lambda>v (desc, amt, cat, dt, now). add_expense v desc amt cat dt now) w args"

text \<open>Sample expenses and stores, used where a property is evaluated on concrete data.\<close>

definition coffee :: expense where
  "coffee = \<lparr>id_field = 1, description = ''Coffee'', amount = 4.5, category = ''Food'',
             date = ''2024-03-01'', created_at = ''2024-03-01 09:00:00''\<rparr>"

definition rent :: expense where
  "rent = \<lparr>id_field = 1, description = ''Rent'', amount = 800, category = ''Housing'',
           date = ''2024-01-15'', created_at = ''2024-01-15 08:30:00''\<rparr>"

definition lunch :: expense where
  "lunch = \<lparr>id_field = 2, description = ''Lunch'', amount = 12.5, category = ''Food'',
            date = ''2024-02-01'', created_at = ''2024-02-01 13:05:00''\<rparr>"

definition books :: expense where
  "books = \<lparr>id_field = 3, description = ''Books'', amount = 30.25, category = ''Education'',
            date = ''2024-01-31'', created_at = ''2024-02-02 18:45:10''\<rparr>"

text \<open>A store with expenses dated 2024-01-15, 2024-02-01 and 2024-01-31.\<close>

definition three_dates :: world where
  "three_dates = \<lparr>expenses = [rent, lunch, books], expenses_file = Some [rent, lunch, books],
                  writable = True, stdout = []\<rparr>"

text \<open>A manager holding one expense while no file has been written yet.\<close>

definition unsaved :: world where
  "unsaved = \<lparr>expenses = [coffee], expenses_file = None, writable = True, stdout = []\<rparr>"

text \<open>An empty store whose file cannot be opened for writing.\<close>

definition read_only :: world where
  "read_only = \<lparr>expenses = [], expenses_file = Some [], writable = False, stdout = []\<rparr>"

section \<open>Auxiliary facts\<close>

lemma py_sum_acc: "foldl (\<lambda>acc x. acc + x) a xs = a + sum_list (xs :: real list)"
  by (induction xs arbitrary: a) simp_all

lemma py_sum_sum_list: "py_sum xs = sum_list xs"
  by (simp add: py_sum_def py_sum_acc)


lemma expenses_print [simp]: "expenses (print m w) = expenses w"
  and expenses_file_print [simp]: "expenses_file (print m w) = expenses_file w"
  and writable_print [simp]: "writable (print m w) = writable w"
  and stdout_print [simp]: "stdout (print m w) = stdout w @ [m]"
  by (simp_all add: print_def)

lemma expenses_add_expense:
  "expenses (add_expense w desc amt cat dt now) =
     expenses w @ [\<lparr>id_field = int (length (expenses w)) + 1, description = desc, amount = amt,
                    category = cat, date = dt, created_at = now\<rparr>]"
  by (simp add: add_expense_def save_expenses_def Let_def)

lemma ids_add_all:
  "map id_field (expenses (add_all w args)) =
     map id_field (expenses w) @
     map int [Suc (length (expenses w)) ..< Suc (length (expenses w) + length args)]"
proof (induction args arbitrary: w)
  case Nil
  show ?case by (simp add: add_all_def)
next
  case (Cons x xs)
  obtain desc amt cat dt now where x: "x = (desc, amt, cat, dt, now)"
    by (cases x) auto
  have step: "add_all w (x # xs) = add_all (add_expense w desc amt cat dt now) xs"
    by (simp add: add_all_def x)
  have len: "length (expenses (add_expense w desc amt cat dt now)) = Suc (length (expenses w))"
    by (simp add: expenses_add_expense)
  have "[Suc (length (expenses w)) ..< Suc (length (expenses w) + length (x # xs))] =
          Suc (length (expenses w)) # [Suc (Suc (length (expenses w))) ..< Suc (Suc (length (expenses w)) + length xs)]"
    by (subst upt_conv_Cons) simp_all
  then show ?case
    unfolding step Cons.IH len by (simp add: expenses_add_expense)
qed

lemma expenses_delete_expense:
  "expenses (delete_expense w i) = filter (\<lambda>e. id_field e \<noteq> i) (expenses w)"
  by (simp add: delete_expense_def save_expenses_def Let_def)


lemma stdout_add_expense:
  "stdout (add_expense w desc amt cat dt now) =
     stdout w @ [if writable w then ExpenseAdded desc amt cat dt else FailedAdd OSError]"
  by (simp add: add_expense_def save_expenses_def Let_def)


lemma edit_loop_None: "edit_loop xs i desc amt cat dt = None \<longleftrightarrow> i \<notin> id_field ` set xs"
  by (induction xs) auto

lemma edit_loop_Some:
  "edit_loop xs i desc amt cat dt = Some ys \<Longrightarrow>
     \<exists>pre e post. xs = pre @ e # post \<and> i \<notin> id_field ` set pre \<and> id_field e = i \<and>
       ys = pre @ update_fields desc amt cat dt e # post"
proof (induction xs arbitrary: ys)
  case Nil
  then show ?case by simp
next
  case (Cons x xs)
  show ?case
  proof (cases "id_field x = i")
    case True
    with Cons.prems have "ys = update_fields desc amt cat dt x # xs" by simp
    with True have "x # xs = [] @ x # xs \<and> i \<notin> id_field ` set [] \<and> id_field x = i \<and>
        ys = [] @ update_fields desc amt cat dt x # xs" by simp
    then show ?thesis by blast
  next
    case False
    with Cons.prems obtain zs where zs: "edit_loop xs i desc amt cat dt = Some zs" and ys: "ys = x # zs"
      by auto
    from Cons.IH [OF zs] obtain pre e post where
      "xs = pre @ e # post" "i \<notin> id_field ` set pre" "id_field e = i"
      "zs = pre @ update_fields desc amt cat dt e # post" by blast
    with False ys have "x # xs = (x # pre) @ e # post \<and> i \<notin> id_field ` set (x # pre) \<and>
        id_field e = i \<and> ys = (x # pre) @ update_fields desc amt cat dt e # post" by auto
    then show ?thesis by blast
  qed
qed

lemma update_fields_frame:
  "id_field (update_fields desc amt cat dt e) = id_field e"
  "created_at (update_fields desc amt cat dt e) = created_at e"
  "description (update_fields desc amt cat dt e) =
     (case desc of Some s \<Rightarrow> if s \<noteq> [] then s else description e | None \<Rightarrow> description e)"
  "amount (update_fields desc amt cat dt e) =
     (case amt of Some x \<Rightarrow> if x \<noteq> 0 then x else amount e | None \<Rightarrow> amount e)"
  "category (update_fields desc amt cat dt e) =
     (case cat of Some s \<Rightarrow> if s \<noteq> [] then s else category e | None \<Rightarrow> category e)"
  "date (update_fields desc amt cat dt e) =
     (case dt of Some s \<Rightarrow> if s \<noteq> [] then s else date e | None \<Rightarrow> date e)"
  by (simp_all add: update_fields_def set_description_def set_amount_def set_category_def
      set_date_def split: option.splits)

lemma edit_expense_not_found:
  "i \<notin> id_field ` set (expenses w) \<Longrightarrow>
     edit_expense w i desc amt cat dt = print (ExpenseNotFound i) w"
proof -
  assume "i \<notin> id_field ` set (expenses w)"
  then have "edit_loop (expenses w) i desc amt cat dt = None"
    by (simp add: edit_loop_None)
  then show ?thesis by (simp add: edit_expense_def)
qed

lemma edit_expense_found:
  assumes "i \<in> id_field ` set (expenses w)"
  shows "\<exists>pre e post. expenses w = pre @ e # post \<and> i \<notin> id_field ` set pre \<and> id_field e = i \<and>
           expenses (edit_expense w i desc amt cat dt) = pre @ update_fields desc amt cat dt e # post"
proof -
  from assms obtain ys where ys: "edit_loop (expenses w) i desc amt cat dt = Some ys"
    using edit_loop_None [of "expenses w" i desc amt cat dt] by (cases "edit_loop (expenses w) i desc amt cat dt") auto
  have "expenses (edit_expense w i desc amt cat dt) = ys"
    by (simp add: edit_expense_def ys save_expenses_def Let_def)
  with edit_loop_Some [OF ys] show ?thesis by simp
qed







lemma stdout_monthly_report:
  "stdout (monthly_report w month year) = stdout w @
     (if monthly_expenses w month year = [] then [NoMonthlyExpenses (month_str year month)]
      else MonthlyReportHeader (month_str year month)
             (sum_list (map amount (monthly_expenses w month year)))
           # report_lines (monthly_expenses w month year))"
  by (simp add: monthly_report_def py_sum_sum_list)

lemma stdout_category_report:
  "stdout (category_report w cat) = stdout w @
     (if category_expenses w cat = [] then [NoCategoryExpenses cat]
      else CategoryReportHeader cat (sum_list (map amount (category_expenses w cat)))
           # report_lines (category_expenses w cat))"
  by (simp add: category_report_def py_sum_sum_list)


lemma stdout_list_expenses:
  "stdout (list_expenses w) = stdout w @
     (if expenses w = [] then [NoExpensesFound]
      else map (\<lambda>e. ExpenseDetails (id_field e) (description e) (amount e) (category e)
                  (date e) (created_at e)) (expenses w))"
  by (simp add: list_expenses_def)

section \<open>The claims\<close>

subsection \<open>Edit\<close>

text \<open>
  Claim C1. Edit overwrites, on the first record with the id, the fields whose argument is
  present, and an amount argument that is not \<open>None\<close> is present. The guard of line 63 is
  the truth value of the amount, which is false for zero: with the amount \<open>0\<close> as the only
  argument, the record with id 1 keeps its amount of 4.5, the unchanged list is written,
  and the update is reported. (For the arguments whose guard holds the effect of Edit is
  given by \<open>edit_expense_found\<close> and \<open>update_fields_frame\<close>.)
\<close>

theorem edit_expense_zero_amount_kept:
  "edit_expense \<lparr>expenses = [coffee], expenses_file = Some [coffee], writable = True, stdout = []\<rparr>
       1 None (Some 0) None None =
     \<lparr>expenses = [coffee], expenses_file = Some [coffee], writable = True,
      stdout = [ExpenseUpdated 1]\<rparr>"
  by (simp add: edit_expense_def coffee_def update_fields_def set_description_def set_amount_def
      set_category_def set_date_def save_expenses_def print_def)

text \<open>
  Claim C6. When no record of the store has the id, Edit changes neither the list nor the
  file, whatever the file holds, and whether or not it can be written: the only effect is
  the not-found message. So \<open>save_expenses\<close> is not reached.
\<close>

theorem edit_expense_unknown_id:
  "i \<notin> id_field ` set (expenses w) \<Longrightarrow>
     edit_expense w i desc amt cat dt = w\<lparr>stdout := stdout w @ [ExpenseNotFound i]\<rparr>"
  by (simp add: edit_expense_not_found print_def)

theorem edit_expense_unknown_id_witness:
  "2 \<notin> id_field ` set (expenses unsaved) \<and>
   edit_expense unsaved 2 (Some ''Tea'') (Some 3) None None =
     \<lparr>expenses = [coffee], expenses_file = None, writable = True,
      stdout = [ExpenseNotFound 2]\<rparr>"
proof -
  have h: "2 \<notin> id_field ` set (expenses unsaved)"
    by (simp add: unsaved_def coffee_def)
  from edit_expense_unknown_id [OF h, of "Some ''Tea''" "Some 3" None None] h
  show ?thesis by (simp add: unsaved_def)
qed

subsection \<open>Add and Delete\<close>

text \<open>
  Claim C2. Adding N records to an empty store gives the ids 1 to N in the order of
  insertion; each new record is appended with the id \<open>length expenses + 1\<close>; and after a
  deletion an addition can give an id that is already in the store (two additions, the
  deletion of id 1 and one more addition leave two records with id 2).
\<close>

theorem add_expense_assigns_ids:
  "map id_field (expenses (add_all (w\<lparr>expenses := []\<rparr>) args)) = map int [1 ..< Suc (length args)] \<and>
   expenses (add_expense w desc amt cat dt now) =
     expenses w @ [\<lparr>id_field = int (length (expenses w)) + 1, description = desc, amount = amt,
                    category = cat, date = dt, created_at = now\<rparr>] \<and>
   (\<exists>args i x. \<not> distinct (map id_field
       (expenses (add_all (delete_expense (add_all (w\<lparr>expenses := []\<rparr>) args) i) [x]))))"
proof -
  have a: "map id_field (expenses (add_all (w\<lparr>expenses := []\<rparr>) args)) = map int [1 ..< Suc (length args)]"
    by (simp add: ids_add_all)
  let ?x = "([], 0::real, [], [], [])"
  have "map id_field (expenses (add_all (delete_expense (add_all (w\<lparr>expenses := []\<rparr>) [?x, ?x]) 1) [?x])) = [2, 2]"
    by (simp add: add_all_def expenses_add_expense expenses_delete_expense)
  then have "\<not> distinct (map id_field
       (expenses (add_all (delete_expense (add_all (w\<lparr>expenses := []\<rparr>) [?x, ?x]) 1) [?x])))"
    by simp
  then have c: "\<exists>args i x. \<not> distinct (map id_field
       (expenses (add_all (delete_expense (add_all (w\<lparr>expenses := []\<rparr>) args) i) [x])))"
    by blast
  from a c show ?thesis by (simp add: expenses_add_expense)
qed

text \<open>
  Claim C3. Delete keeps exactly the records whose id differs from the given one, in their
  order, so no record with the id is left, however many there were. It then writes the
  resulting list whether or not a record matched: the file holds the resulting list
  whenever it can be written, and the outcome is reported.
\<close>

theorem delete_expense_removes_all_matches:
  "expenses (delete_expense w i) = filter (\<lambda>e. id_field e \<noteq> i) (expenses w) \<and>
   i \<notin> id_field ` set (expenses (delete_expense w i)) \<and>
   expenses_file (delete_expense w i) =
     (if writable w then Some (filter (\<lambda>e. id_field e \<noteq> i) (expenses w)) else expenses_file w) \<and>
   stdout (delete_expense w i) =
     stdout w @ [if writable w then ExpenseDeleted i else FailedDelete OSError]"
  by (auto simp add: delete_expense_def save_expenses_def Let_def)

subsection \<open>Reports\<close>





text \<open>
  Claim C9. On an empty store List prints the empty-store message; a monthly or category
  report that selects no record prints its no-results message. None of the three ever
  returns without printing.
\<close>

theorem reports_never_silent:
  "(expenses w = [] \<longrightarrow> stdout (list_expenses w) = stdout w @ [NoExpensesFound]) \<and>
   (monthly_expenses w month year = [] \<longrightarrow>
      stdout (monthly_report w month year) = stdout w @ [NoMonthlyExpenses (month_str year month)]) \<and>
   (category_expenses w cat = [] \<longrightarrow>
      stdout (category_report w cat) = stdout w @ [NoCategoryExpenses cat]) \<and>
   length (stdout w) < length (stdout (list_expenses w)) \<and>
   length (stdout w) < length (stdout (monthly_report w month year)) \<and>
   length (stdout w) < length (stdout (category_report w cat))"
  by (simp add: stdout_list_expenses stdout_monthly_report stdout_category_report)

theorem reports_never_silent_witness:
  "expenses read_only = [] \<and> monthly_expenses three_dates 3 2024 = [] \<and>
   category_expenses three_dates ''Travel'' = [] \<and>
   stdout (list_expenses read_only) = [NoExpensesFound] \<and>
   stdout (monthly_report three_dates 3 2024) = [NoMonthlyExpenses ''2024-03''] \<and>
   stdout (category_report three_dates ''Travel'') = [NoCategoryExpenses ''Travel'']"
proof -
  have ms: "month_str 2024 3 = ''2024-03''" by code_simp
  have l: "lower ''Housing'' = ''housing''" "lower ''Education'' = ''education''"
     "lower ''Food'' = ''food''" "lower ''Travel'' = ''travel''"
    by code_simp+
  have e: "expenses read_only = []" by (simp add: read_only_def)
  have m: "monthly_expenses three_dates 3 2024 = []"
    by (simp add: monthly_expenses_def ms three_dates_def rent_def lunch_def books_def)
  have c: "category_expenses three_dates ''Travel'' = []"
    by (simp add: category_expenses_def three_dates_def rent_def lunch_def books_def l del: list.map)
  from reports_never_silent [of read_only 3 2024 "''Travel''"] e
  have r1: "stdout (list_expenses read_only) = [NoExpensesFound]" by (simp add: read_only_def)
  from reports_never_silent [of three_dates 3 2024 "''Travel''"] m c ms
  have r2: "stdout (monthly_report three_dates 3 2024) = [NoMonthlyExpenses ''2024-03'']"
    and r3: "stdout (category_report three_dates ''Travel'') = [NoCategoryExpenses ''Travel'']"
    by (simp_all add: three_dates_def)
  from e m c r1 r2 r3 show ?thesis by simp
qed

text \<open>
  Claim C10. List, the monthly report and the category report change neither the list in
  memory nor the file (nor whether it can be written): they only print.
\<close>

theorem reports_leave_store_unchanged:
  "expenses (list_expenses w) = expenses w \<and>
   expenses_file (list_expenses w) = expenses_file w \<and>
   writable (list_expenses w) = writable w \<and>
   expenses (monthly_report w month year) = expenses w \<and>
   expenses_file (monthly_report w month year) = expenses_file w \<and>
   writable (monthly_report w month year) = writable w \<and>
   expenses (category_report w cat) = expenses w \<and>
   expenses_file (category_report w cat) = expenses_file w \<and>
   writable (category_report w cat) = writable w"
  by (simp add: list_expenses_def monthly_report_def category_report_def)

subsection \<open>Persistence\<close>

text \<open>
  Claim C7. When the file can be written, saving a list of expenses succeeds, the file then
  holds that list, and loading it, into a manager holding any list or into a newly
  constructed one, gives the same records in the same order.
\<close>

theorem save_then_load_roundtrip:
  "writable w \<Longrightarrow>
     \<exists>w'. save_expenses (w\<lparr>expenses := xs\<rparr>) = Inr w' \<and> expenses_file w' = Some xs \<and>
          expenses (load_expenses (w'\<lparr>expenses := ys\<rparr>)) = xs \<and>
          expenses (init_manager w') = xs"
  by (simp add: save_expenses_def load_expenses_def init_manager_def)

theorem save_then_load_roundtrip_witness:
  "writable unsaved \<and>
   (\<exists>w'. save_expenses (unsaved\<lparr>expenses := [rent, lunch, books]\<rparr>) = Inr w' \<and>
         expenses (init_manager w') = [rent, lunch, books])"
proof -
  have h: "writable unsaved" by (simp add: unsaved_def)
  from save_then_load_roundtrip [OF h, of "[rent, lunch, books]" "[]"] h
  show ?thesis by blast
qed




end
